theory Spec2Isabelle
  imports Complex_Main "HOL-Library.Sublist"
begin

section \<open>Session recall: data model\<close>

text \<open>
  A shallow embedding of \<^verbatim>\<open>src/extensions/session-recall/index.ts\<close>.

  JavaScript numbers are modelled as exact rationals: every comparison of the source is
  then the comparison of the model, and products and quotients are taken without the
  rounding of binary64. The one non-finite number of the source, the bound
  \<^verbatim>\<open>Infinity\<close> of the last decay tier, is a constructor of its own.

  A string is a list of code units below 256 (ASCII and the Latin-1 supplement);
  \<^verbatim>\<open>length\<close> counts code units, as in the source.
\<close>

type_synonym number = rat

record SearchResult =
  path :: string
  startLine :: number
  endLine :: number
  score :: number
  snippet :: string
  source :: string

record SearchResponse =
  results :: "SearchResult list"

text \<open>\<^verbatim>\<open>DecayedResult = SearchResult & {rawScore, ageInDays, decayFactor}\<close>.\<close>

record DecayedResult = SearchResult +
  rawScore :: number
  ageInDays :: number
  decayFactor :: number

record SessionRecallConfig =
  enabled :: bool
  maxResults :: number
  minScore :: number
  minPromptLength :: number
  agentId :: string

text \<open>
  The constraints of the zod schema (lines 17-23): \<^verbatim>\<open>maxResults\<close> in [1, 20],
  \<^verbatim>\<open>minScore\<close> in [0, 1]; \<^verbatim>\<open>minPromptLength\<close> is any number.
  \<^verbatim>\<open>register\<close> parses the configuration with it before the hook is installed.
\<close>

definition sessionRecallConfigSchema :: "SessionRecallConfig \<Rightarrow> bool" where
  "sessionRecallConfigSchema cfg \<longleftrightarrow>
     1 \<le> maxResults cfg \<and> maxResults cfg \<le> 20 \<and> 0 \<le> minScore cfg \<and> minScore cfg \<le> 1"

definition default_config :: SessionRecallConfig where
  "default_config =
     \<lparr>enabled = True, maxResults = 5, minScore = 1 / 2, minPromptLength = 10,
      agentId = ''main''\<rparr>"

record event =
  prompt :: "string option"

subsection \<open>The runtime the plugin runs in\<close>

text \<open>
  What the source reads from outside itself, as one record: the clock
  (\<^verbatim>\<open>Date.now()\<close>, taken as constant over one invocation), the modification time
  \<^verbatim>\<open>statSync(p).mtimeMs\<close> (\<open>None\<close> when \<^verbatim>\<open>statSync\<close> throws), the
  child process (\<^verbatim>\<open>execSync\<close>, which throws on a timeout, a failing process or
  an output beyond \<^verbatim>\<open>maxBuffer\<close>), \<^verbatim>\<open>JSON.parse\<close> (\<open>None\<close> when it throws;
  the parsed value is taken at the type \<^verbatim>\<open>SearchResponse\<close> the source
  gives it) and the decimal rendering of a number that is not an integer.
\<close>

datatype exec_failure = Timeout | ProcessError | MaxBufferExceeded

datatype js_error = ExecError exec_failure | SyntaxError

record runtime =
  Date_now :: number
  statSync_mtimeMs :: "string \<Rightarrow> number option"
  execSync :: "string \<Rightarrow> exec_failure + string"
  JSON_parse :: "string \<Rightarrow> SearchResponse option"
  fraction_toString :: "number \<Rightarrow> string"

section \<open>Strings and numbers of the language\<close>

definition newline :: char where
  "newline = CHR 0x0A"

definition quote :: char where
  "quote = CHR 0x27"

definition backslash :: char where
  "backslash = CHR 0x5C"

text \<open>\<^verbatim>\<open>Array.prototype.join\<close>.\<close>

fun join :: "string \<Rightarrow> string list \<Rightarrow> string" where
  "join sep [] = []"
| "join sep [x] = x"
| "join sep (x # y # ys) = x @ sep @ join sep (y # ys)"

text \<open>
  \<^verbatim>\<open>String.prototype.toLowerCase\<close> on code units below 256: the letters A-Z and the
  capital letters of the Latin-1 supplement (0xC0-0xDE but the multiplication sign 0xD7)
  move up by 32.
\<close>

definition toLowerCase_char :: "char \<Rightarrow> char" where
  "toLowerCase_char c =
     (let n = (of_char c :: nat) in
      if (65 \<le> n \<and> n \<le> 90) \<or> (192 \<le> n \<and> n \<le> 222 \<and> n \<noteq> 215)
      then char_of (n + 32) else c)"

definition toLowerCase :: "string \<Rightarrow> string" where
  "toLowerCase s = map toLowerCase_char s"

definition startsWith :: "string \<Rightarrow> string \<Rightarrow> bool" where
  "startsWith s p = (take (length p) s = p)"

fun includes_str :: "string \<Rightarrow> string \<Rightarrow> bool" where
  "includes_str [] p = (p = [])"
| "includes_str (c # s) p = (startsWith (c # s) p \<or> includes_str s p)"

text \<open>
  \<^verbatim>\<open>String.prototype.trim\<close> strips white space and line terminators: below 256 these
  are TAB, LF, VT, FF, CR, the space and the no-break space.
\<close>

definition isWhiteSpace :: "char \<Rightarrow> bool" where
  "isWhiteSpace c =
     (let n = (of_char c :: nat) in (9 \<le> n \<and> n \<le> 13) \<or> n = 32 \<or> n = 160)"

definition trim :: "string \<Rightarrow> string" where
  "trim s = rev (dropWhile isWhiteSpace (rev (dropWhile isWhiteSpace s)))"

text \<open>
  \<^verbatim>\<open>Math.round\<close>: the nearest integer, a tie going up. \<^verbatim>\<open>Math.trunc\<close> is the
  conversion \<^verbatim>\<open>slice\<close> applies to its bounds.
\<close>

definition Math_round :: "number \<Rightarrow> int" where
  "Math_round x = \<lfloor>x + 1 / 2\<rfloor>"

definition Math_trunc :: "number \<Rightarrow> int" where
  "Math_trunc x = (if x < 0 then \<lceil>x\<rceil> else \<lfloor>x\<rfloor>)"

text \<open>
  Number to string. An integer prints as its decimal digits (the language turns to the
  exponent notation from \<open>10^21\<close> on, beyond every count and age met here); the rendering
  of any other number is the runtime's.
\<close>

fun String_nat :: "nat \<Rightarrow> string" where
  "String_nat n =
     (if n < 10 then [char_of (48 + n)] else String_nat (n div 10) @ [char_of (48 + n mod 10)])"

declare String_nat.simps [simp del]

definition String_int :: "int \<Rightarrow> string" where
  "String_int i = (if i < 0 then CHR ''-'' # String_nat (nat (- i)) else String_nat (nat i))"

definition String_number :: "runtime \<Rightarrow> number \<Rightarrow> string" where
  "String_number rt x =
     (if x = of_int \<lfloor>x\<rfloor> then String_int \<lfloor>x\<rfloor> else fraction_toString rt x)"

text \<open>
  \<^verbatim>\<open>xs.slice(0, e)\<close>: the bound is truncated to an integer; a negative bound counts
  from the end of the array.
\<close>

definition slice0 :: "number \<Rightarrow> 'a list \<Rightarrow> 'a list" where
  "slice0 e xs =
     (let k = Math_trunc e; n = int (length xs);
          final = (if k < 0 then max (n + k) 0 else min k n)
      in take (nat final) xs)"

text \<open>
  \<^verbatim>\<open>Array.prototype.sort(cmp)\<close>. ECMAScript (2019 on) requires a stable sort, and with
  a consistent comparator every stable sort returns the same array; the model is the
  insertion sort that puts an element before the first one it does not have to follow
  (\<open>cmp x y \<le> 0\<close>).
\<close>

fun insert_by :: "('a \<Rightarrow> 'a \<Rightarrow> number) \<Rightarrow> 'a \<Rightarrow> 'a list \<Rightarrow> 'a list" where
  "insert_by cmp x [] = [x]"
| "insert_by cmp x (y # ys) = (if cmp x y \<le> 0 then x # y # ys else y # insert_by cmp x ys)"

fun Array_sort :: "('a \<Rightarrow> 'a \<Rightarrow> number) \<Rightarrow> 'a list \<Rightarrow> 'a list" where
  "Array_sort cmp [] = []"
| "Array_sort cmp (x # xs) = insert_by cmp x (Array_sort cmp xs)"

section \<open>Decay\<close>

datatype bound = Days number | Infinity

record DecayTier =
  maxDays :: bound
  factor :: number

fun le_bound :: "number \<Rightarrow> bound \<Rightarrow> bool" where
  "le_bound a (Days d) = (a \<le> d)"
| "le_bound a Infinity = True"

definition DECAY_TIERS :: "DecayTier list" where
  "DECAY_TIERS =
     [\<lparr>maxDays = Days 7, factor = 1\<rparr>,
      \<lparr>maxDays = Days 30, factor = 8 / 10\<rparr>,
      \<lparr>maxDays = Days 90, factor = 5 / 10\<rparr>,
      \<lparr>maxDays = Infinity, factor = 2 / 10\<rparr>]"

definition getFileAgeInDays :: "runtime \<Rightarrow> string \<Rightarrow> number" where
  "getFileAgeInDays rt filePath =
     (case statSync_mtimeMs rt filePath of
        None \<Rightarrow> 0
      | Some mtime \<Rightarrow> (Date_now rt - mtime) / (1000 * 60 * 60 * 24))"

text \<open>The loop of \<^verbatim>\<open>getDecayFactor\<close>: \<open>None\<close> when it falls through.\<close>

fun tier_loop :: "DecayTier list \<Rightarrow> number \<Rightarrow> number option" where
  "tier_loop [] age = None"
| "tier_loop (tier # tiers) age =
     (if le_bound age (maxDays tier) then Some (factor tier) else tier_loop tiers age)"

definition getDecayFactor :: "number \<Rightarrow> number" where
  "getDecayFactor age =
     (case tier_loop DECAY_TIERS age of
        Some f \<Rightarrow> f
      | None \<Rightarrow> factor (last DECAY_TIERS))"

definition decay_result :: "runtime \<Rightarrow> SearchResult \<Rightarrow> DecayedResult" where
  "decay_result rt r =
     (let age = getFileAgeInDays rt (path r);
          f = getDecayFactor age
      in \<lparr>path = path r, startLine = startLine r, endLine = endLine r,
          score = score r * f, snippet = snippet r, source = source r,
          rawScore = score r, ageInDays = age, decayFactor = f\<rparr>)"

definition applyDecay :: "runtime \<Rightarrow> SearchResult list \<Rightarrow> DecayedResult list" where
  "applyDecay rt rs = map (decay_result rt) rs"

section \<open>Search\<close>

text \<open>\<^verbatim>\<open>query.replace(/'/g, "'\\''")\<close>: every quote becomes quote, backslash, quote, quote.\<close>

definition escapeQuery :: "string \<Rightarrow> string" where
  "escapeQuery query =
     concat (map (\<lambda>c. if c = quote then [quote, backslash, quote, quote] else [c]) query)"

definition cmd_parts :: "runtime \<Rightarrow> string \<Rightarrow> SessionRecallConfig \<Rightarrow> string list" where
  "cmd_parts rt query cfg =
     [''openclaw'', ''memory'', ''search'',
      [quote] @ escapeQuery query @ [quote],
      ''--agent'', agentId cfg,
      ''--max-results'', String_number rt (maxResults cfg * 3),
      ''--min-score'', String_number rt (minScore cfg * (5 / 10)),
      ''--json'']"

definition shell_command :: "runtime \<Rightarrow> string \<Rightarrow> SessionRecallConfig \<Rightarrow> string" where
  "shell_command rt query cfg = join '' '' (cmd_parts rt query cfg) @ '' 2>/dev/null''"

text \<open>
  \<^verbatim>\<open>output.match(/\{[\s\S]*\}/)\<close>: the match starts at the first opening brace and,
  the star being greedy, ends at the last closing brace after it; there is no match when
  no closing brace follows the first opening one.
\<close>

definition match_json :: "string \<Rightarrow> string option" where
  "match_json output =
     (case dropWhile (\<lambda>c. c \<noteq> CHR ''{'') output of
        [] \<Rightarrow> None
      | b # rest \<Rightarrow>
          (if CHR ''}'' \<in> set rest
           then Some (b # rev (dropWhile (\<lambda>c. c \<noteq> CHR ''}'') (rev rest)))
           else None))"

text \<open>
  Lines 213-219: what \<^verbatim>\<open>searchSessions\<close> returns for a parsed response. The
  hits tagged \<^verbatim>\<open>"sessions"\<close> are kept, decayed, filtered on the decayed score,
  sorted with the comparator \<^verbatim>\<open>(a, b) => b.score - a.score\<close> and cut.
\<close>

definition select_results ::
  "runtime \<Rightarrow> SessionRecallConfig \<Rightarrow> SearchResponse \<Rightarrow> DecayedResult list" where
  "select_results rt cfg response =
     (let sessionResults = filter (\<lambda>r. source r = ''sessions'') (results response);
          decayed = applyDecay rt sessionResults
      in slice0 (maxResults cfg)
           (Array_sort (\<lambda>a b. score b - score a)
             (filter (\<lambda>r. minScore cfg \<le> score r) decayed)))"

text \<open>
  The body of the \<^verbatim>\<open>try\<close> block of \<^verbatim>\<open>searchSessions\<close>; \<open>Inl\<close> is an exception
  on its way to the \<^verbatim>\<open>catch\<close>.
\<close>

definition searchSessions_try ::
  "runtime \<Rightarrow> string \<Rightarrow> SessionRecallConfig \<Rightarrow> js_error + DecayedResult list" where
  "searchSessions_try rt command cfg =
     (case execSync rt command of
        Inl e \<Rightarrow> Inl (ExecError e)
      | Inr output \<Rightarrow>
          (case match_json output of
             None \<Rightarrow> Inr []
           | Some jsonMatch \<Rightarrow>
               (case JSON_parse rt jsonMatch of
                  None \<Rightarrow> Inl SyntaxError
                | Some response \<Rightarrow> Inr (select_results rt cfg response))))"

text \<open>
  \<^verbatim>\<open>searchSessions\<close> returns its results; the second component of the model is the
  list of the shell commands it has run.
\<close>

definition searchSessions ::
  "runtime \<Rightarrow> string \<Rightarrow> SessionRecallConfig \<Rightarrow> DecayedResult list \<times> string list" where
  "searchSessions rt query cfg =
     (let command = shell_command rt query cfg
      in (case searchSessions_try rt command cfg of Inl e \<Rightarrow> [] | Inr rs \<Rightarrow> rs, [command]))"

section \<open>Formatting\<close>

definition formatAge :: "number \<Rightarrow> string" where
  "formatAge days =
     (if days < 1 then ''today''
      else if days < 2 then ''yesterday''
      else if days < 7 then String_int (Math_round days) @ ''d ago''
      else if days < 30 then String_int (Math_round (days / 7)) @ ''w ago''
      else if days < 365 then String_int (Math_round (days / 30)) @ ''mo ago''
      else String_int (Math_round (days / 365)) @ ''y ago'')"

text \<open>Lines 237-240 of \<^verbatim>\<open>formatContext\<close>: the snippet, trimmed and cut.\<close>

definition clean_snippet :: "string \<Rightarrow> string" where
  "clean_snippet raw =
     (let snippet = trim raw
      in if length snippet > 500 then take 500 snippet @ ''...'' else snippet)"

definition format_result :: "nat \<Rightarrow> DecayedResult \<Rightarrow> string" where
  "format_result i r =
     (let scorePercent = Math_round (score r * 100);
          ageLabel = formatAge (ageInDays r)
      in ''['' @ String_nat (i + 1) @ ''] ('' @ String_int scorePercent @ ''%, '' @ ageLabel
         @ '')'' @ [newline] @ clean_snippet (snippet r))"

definition formatContext :: "DecayedResult list \<Rightarrow> string" where
  "formatContext rs =
     ''<session-recall>'' @ [newline]
     @ ''The following excerpts from recent sessions may be relevant:'' @ [newline, newline]
     @ join [newline, newline] (map (\<lambda>(i, r). format_result i r) (enumerate 0 rs))
     @ [newline] @ ''</session-recall>''"

section \<open>The hook\<close>

text \<open>
  The handler of \<^verbatim>\<open>before_agent_start\<close> (lines 89-117). It returns the context to
  prepend, or nothing; the second component is the list of the shell commands run.
  \<^verbatim>\<open>!event.prompt\<close> holds of a missing prompt and of the empty string. Nothing
  in the \<^verbatim>\<open>try\<close> block of the handler raises in the model
  (\<^verbatim>\<open>searchSessions\<close> catches its own exceptions), so its \<^verbatim>\<open>catch\<close> has no
  branch here; the log lines are left out.
\<close>

definition before_agent_start ::
  "runtime \<Rightarrow> SessionRecallConfig \<Rightarrow> event \<Rightarrow> string option \<times> string list" where
  "before_agent_start rt cfg ev =
     (case prompt ev of
        None \<Rightarrow> (None, [])
      | Some p \<Rightarrow>
          if p = [] \<or> of_nat (length p) < minPromptLength cfg then (None, [])
          else
            (let promptLower = toLowerCase p
             in if includes_str promptLower ''heartbeat'' \<or> startsWith promptLower ''[system''
                then (None, [])
                else
                  (let (rs, commands) = searchSessions rt p cfg
                   in if length rs = 0 then (None, commands)
                      else (Some (formatContext rs), commands))))"

section \<open>A concrete runtime\<close>

text \<open>
  Five hits as a backend could return them: an old session with a high raw score, a hit
  of another corpus, two sessions with the same score, and a recent session. The clock
  stands at day 100; the old session was written on day 0, the two equal ones on day 98,
  the last on day 97.
\<close>

definition day :: number where
  "day = 1000 * 60 * 60 * 24"

definition example_hits :: "SearchResult list" where
  "example_hits =
     [\<lparr>path = ''sessions/old.jsonl'', startLine = 1, endLine = 9, score = 9 / 10,
       snippet = ''  deploy notes  '', source = ''sessions''\<rparr>,
      \<lparr>path = ''memory/notes.md'', startLine = 1, endLine = 3, score = 95 / 100,
       snippet = ''memo'', source = ''memory''\<rparr>,
      \<lparr>path = ''sessions/a.jsonl'', startLine = 4, endLine = 6, score = 6 / 10,
       snippet = ''first'', source = ''sessions''\<rparr>,
      \<lparr>path = ''sessions/b.jsonl'', startLine = 2, endLine = 5, score = 6 / 10,
       snippet = ''second'', source = ''sessions''\<rparr>,
      \<lparr>path = ''sessions/c.jsonl'', startLine = 7, endLine = 8, score = 7 / 10,
       snippet = ''third'', source = ''sessions''\<rparr>]"

definition example_runtime :: runtime where
  "example_runtime =
     \<lparr>Date_now = 100 * day,
      statSync_mtimeMs =
        (\<lambda>p. if p = ''sessions/old.jsonl'' then Some 0
             else if p = ''sessions/a.jsonl'' \<or> p = ''sessions/b.jsonl'' then Some (98 * day)
             else if p = ''sessions/c.jsonl'' then Some (97 * day)
             else None),
      execSync = (\<lambda>command. Inr ''plugins loaded {hits} done''),
      JSON_parse = (\<lambda>text. if text = ''{hits}'' then Some \<lparr>results = example_hits\<rparr> else None),
      fraction_toString = (\<lambda>x. if x = 1 / 4 then ''0.25'' else ''?'')\<rparr>"

text \<open>
  The same runtime with a search that times out, with one that prints no brace at all,
  and with one whose braces hold no JSON.
\<close>

definition timeout_runtime :: runtime where
  "timeout_runtime = example_runtime\<lparr>execSync := (\<lambda>command. Inl Timeout)\<rparr>"

definition silent_runtime :: runtime where
  "silent_runtime = example_runtime\<lparr>execSync := (\<lambda>command. Inr ''No matches.'')\<rparr>"

definition garbled_runtime :: runtime where
  "garbled_runtime = example_runtime\<lparr>execSync := (\<lambda>command. Inr ''error: {not json}'')\<rparr>"

definition zero_config :: SessionRecallConfig where
  "zero_config = default_config\<lparr>minPromptLength := 0\<rparr>"

section \<open>The conditions of the specification\<close>

text \<open>
  The search gave nothing to rank, in the words of the specification: the external call
  failed, or its output holds no parseable JSON block.
\<close>

definition no_usable_response :: "runtime \<Rightarrow> string \<Rightarrow> SessionRecallConfig \<Rightarrow> bool" where
  "no_usable_response rt query cfg =
     (case execSync rt (shell_command rt query cfg) of
        Inl e \<Rightarrow> True
      | Inr output \<Rightarrow>
          (case match_json output of
             None \<Rightarrow> True
           | Some js \<Rightarrow> JSON_parse rt js = None))"

text \<open>
  The gate in the words of the specification: the prompt is absent, or its length is below
  \<^verbatim>\<open>minPromptLength\<close>, or its lower-cased text contains "heartbeat" or starts with
  "[system".
\<close>

definition spec_gate_skips :: "SessionRecallConfig \<Rightarrow> event \<Rightarrow> bool" where
  "spec_gate_skips cfg ev =
     (case prompt ev of
        None \<Rightarrow> True
      | Some p \<Rightarrow>
          of_nat (length p) < minPromptLength cfg
          \<or> includes_str (toLowerCase p) ''heartbeat''
          \<or> startsWith (toLowerCase p) ''[system'')"

text \<open>The condition the handler tests: as above, and the empty prompt.\<close>

definition gate_skips :: "SessionRecallConfig \<Rightarrow> event \<Rightarrow> bool" where
  "gate_skips cfg ev =
     (case prompt ev of
        None \<Rightarrow> True
      | Some p \<Rightarrow>
          p = []
          \<or> of_nat (length p) < minPromptLength cfg
          \<or> includes_str (toLowerCase p) ''heartbeat''
          \<or> startsWith (toLowerCase p) ''[system'')"

section \<open>Decay: the tier table\<close>

lemma getDecayFactor_cases:
  "getDecayFactor a =
     (if a \<le> 7 then 1 else if a \<le> 30 then 8 / 10 else if a \<le> 90 then 5 / 10 else 2 / 10)"
  by (simp add: getDecayFactor_def DECAY_TIERS_def)

lemma tier_loop_find:
  "tier_loop tiers a = map_option factor (find (\<lambda>t. le_bound a (maxDays t)) tiers)"
  by (induction tiers) simp_all

lemma find_tier_total: "\<exists>t. find (\<lambda>t. le_bound a (maxDays t)) DECAY_TIERS = Some t"
  by (simp add: DECAY_TIERS_def)

text \<open>
  Claim C2. \<^verbatim>\<open>getDecayFactor(a)\<close> is the factor of the first tier of the table whose
  bound is at least \<open>a\<close> (such a tier always exists, so the fall-through return is never
  taken), and with the table of the source this is 1.0 up to 7 days, 0.8 up to 30,
  0.5 up to 90 and 0.2 beyond. It holds for every age, the negative ones (a file dated
  in the future) included.
\<close>

theorem getDecayFactor_first_tier:
  "(\<exists>t. find (\<lambda>t. le_bound a (maxDays t)) DECAY_TIERS = Some t \<and> getDecayFactor a = factor t)
   \<and> getDecayFactor a =
       (if a \<le> 7 then 1 else if a \<le> 30 then 8 / 10 else if a \<le> 90 then 5 / 10 else 2 / 10)"
proof
  obtain t where t: "find (\<lambda>t. le_bound a (maxDays t)) DECAY_TIERS = Some t"
    using find_tier_total by blast
  then have "getDecayFactor a = factor t"
    by (simp add: getDecayFactor_def tier_loop_find)
  with t show "\<exists>t. find (\<lambda>t. le_bound a (maxDays t)) DECAY_TIERS = Some t
                  \<and> getDecayFactor a = factor t"
    by blast
next
  show "getDecayFactor a =
       (if a \<le> 7 then 1 else if a \<le> 30 then 8 / 10 else if a \<le> 90 then 5 / 10 else 2 / 10)"
    by (rule getDecayFactor_cases)
qed

lemma getDecayFactor_antimono: "a1 \<le> a2 \<Longrightarrow> getDecayFactor a2 \<le> getDecayFactor a1"
  by (simp add: getDecayFactor_cases)

lemma getDecayFactor_range: "0 < getDecayFactor a \<and> getDecayFactor a \<le> 1"
  by (simp add: getDecayFactor_cases)

lemma decay_result_fields:
  "source (decay_result rt r) = source r"
  "rawScore (decay_result rt r) = score r"
  "ageInDays (decay_result rt r) = getFileAgeInDays rt (path r)"
  "decayFactor (decay_result rt r) = getDecayFactor (ageInDays (decay_result rt r))"
  "score (decay_result rt r) = rawScore (decay_result rt r) * decayFactor (decay_result rt r)"
  by (simp_all add: decay_result_def Let_def)

lemma decay_result_le_raw:
  assumes "0 \<le> score r"
  shows "score (decay_result rt r) \<le> score r"
proof -
  have "score r * getDecayFactor (getFileAgeInDays rt (path r)) \<le> score r * 1"
    using assms getDecayFactor_range by (intro mult_left_mono) auto
  then show ?thesis
    by (simp add: decay_result_def Let_def)
qed

text \<open>
  Claim C9. The factor does not grow with the age, it lies in (0, 1], and so the decayed
  score of a hit, its raw score times the factor of its age, is at most the raw score.
  The last part is about the raw scores of the data model, which are not negative: a
  negative number times a factor below one is above the number.
\<close>

theorem getDecayFactor_monotone_bounded:
  "(a1 \<le> a2 \<longrightarrow> getDecayFactor a2 \<le> getDecayFactor a1)
   \<and> 0 < getDecayFactor a \<and> getDecayFactor a \<le> 1
   \<and> map rawScore (applyDecay rt hits) = map score hits
   \<and> (\<forall>d \<in> set (applyDecay rt hits).
         decayFactor d = getDecayFactor (ageInDays d)
         \<and> score d = rawScore d * decayFactor d
         \<and> (0 \<le> rawScore d \<longrightarrow> score d \<le> rawScore d))"
proof -
  have raw: "map rawScore (applyDecay rt hits) = map score hits"
    by (simp add: applyDecay_def decay_result_fields(2))
  have each: "\<forall>d \<in> set (applyDecay rt hits).
         decayFactor d = getDecayFactor (ageInDays d)
         \<and> score d = rawScore d * decayFactor d
         \<and> (0 \<le> rawScore d \<longrightarrow> score d \<le> rawScore d)"
  proof
    fix d
    assume "d \<in> set (applyDecay rt hits)"
    then obtain r where d: "d = decay_result rt r"
      by (auto simp: applyDecay_def)
    show "decayFactor d = getDecayFactor (ageInDays d)
         \<and> score d = rawScore d * decayFactor d
         \<and> (0 \<le> rawScore d \<longrightarrow> score d \<le> rawScore d)"
      unfolding d using decay_result_fields(4,5) [of rt r] decay_result_le_raw [of r rt]
      by (simp add: decay_result_fields(2))
  qed
  show ?thesis
    using getDecayFactor_antimono [of a1 a2] getDecayFactor_range [of a] raw each by blast
qed

theorem getDecayFactor_monotone_bounded_witness:
  "getDecayFactor 100 \<le> getDecayFactor 2
   \<and> map score (applyDecay example_runtime example_hits) = [18 / 100, 95 / 100, 6 / 10, 6 / 10, 7 / 10]
   \<and> map rawScore (applyDecay example_runtime example_hits) = [9 / 10, 95 / 100, 6 / 10, 6 / 10, 7 / 10]"
proof -
  have "(2::number) \<le> 100" by simp
  then have "getDecayFactor 100 \<le> getDecayFactor 2"
    using getDecayFactor_monotone_bounded [of 2 100 0 example_runtime example_hits] by blast
  moreover have "map score (applyDecay example_runtime example_hits)
      = [18 / 100, 95 / 100, 6 / 10, 6 / 10, 7 / 10]"
    by code_simp
  moreover have "map rawScore (applyDecay example_runtime example_hits)
      = [9 / 10, 95 / 100, 6 / 10, 6 / 10, 7 / 10]"
    by code_simp
  ultimately show ?thesis by blast
qed

section \<open>Sorting and cutting\<close>

lemma insert_by_desc:
  fixes f :: "'a \<Rightarrow> number"
  shows "insert_by (\<lambda>a b. f b - f a) x ys = insort_key (\<lambda>r. - f r) x ys"
  by (induction ys) simp_all

text \<open>
  With the comparator \<^verbatim>\<open>(a, b) => b.score - a.score\<close> the sort is the library's
  stable insertion sort on the negated score.
\<close>

lemma Array_sort_desc:
  fixes f :: "'a \<Rightarrow> number"
  shows "Array_sort (\<lambda>a b. f b - f a) xs = sort_key (\<lambda>r. - f r) xs"
  by (induction xs) (simp_all add: insert_by_desc)

lemma Array_sort_desc_set:
  fixes f :: "'a \<Rightarrow> number"
  shows "set (Array_sort (\<lambda>a b. f b - f a) xs) = set xs"
  by (simp add: Array_sort_desc)

lemma Array_sort_desc_sorted:
  fixes f :: "'a \<Rightarrow> number"
  shows "sorted_wrt (\<lambda>a b. f b \<le> f a) (Array_sort (\<lambda>a b. f b - f a) xs)"
proof -
  have "sorted (map (\<lambda>r. - f r) (sort_key (\<lambda>r. - f r) xs))"
    by (rule sorted_sort_key)
  then show ?thesis
    by (simp add: Array_sort_desc sorted_map)
qed

lemma Array_sort_desc_stable:
  fixes f :: "'a \<Rightarrow> number"
  shows "filter (\<lambda>r. f r = s) (Array_sort (\<lambda>a b. f b - f a) xs) = filter (\<lambda>r. f r = s) xs"
proof -
  have "filter (\<lambda>r. - f r = - s) (sort_key (\<lambda>r. - f r) xs) = filter (\<lambda>r. - f r = - s) xs"
    by (rule sort_key_stable)
  then show ?thesis
    by (simp add: Array_sort_desc)
qed

lemma slice0_take: "\<exists>k. slice0 e xs = take k xs"
  by (auto simp: slice0_def Let_def)

lemma slice0_length:
  assumes "0 \<le> e"
  shows "of_nat (length (slice0 e xs)) \<le> e"
proof -
  have k: "0 \<le> Math_trunc e" "of_int (Math_trunc e) \<le> e"
    using assms by (simp_all add: Math_trunc_def)
  have "int (length (slice0 e xs)) \<le> Math_trunc e"
    using k(1) by (simp add: slice0_def Let_def)
  then have "(of_int (int (length (slice0 e xs))) :: rat) \<le> of_int (Math_trunc e)"
    by (simp only: of_int_le_iff)
  with k(2) show ?thesis by simp
qed

lemma slice0_set: "set (slice0 e xs) \<subseteq> set xs"
  using slice0_take [of e xs] set_take_subset by metis

lemma slice0_sorted_wrt: "sorted_wrt R xs \<Longrightarrow> sorted_wrt R (slice0 e xs)"
  using slice0_take [of e xs] sorted_wrt_take by metis

lemma slice0_prefix: "prefix (slice0 e xs) xs"
  using slice0_take [of e xs] take_is_prefix by metis

lemma filter_eq_after_threshold:
  fixes f :: "'a \<Rightarrow> number"
  shows "filter (\<lambda>r. f r = s) (filter (\<lambda>r. m \<le> f r) xs) =
         (if m \<le> s then filter (\<lambda>r. f r = s) xs else [])"
  by (induction xs) auto

section \<open>The selection\<close>

lemma select_results_subset:
  "set (select_results rt cfg response) \<subseteq>
     {d \<in> decay_result rt ` {r \<in> set (results response). source r = ''sessions''}.
        minScore cfg \<le> score d}"
proof -
  let ?kept = "filter (\<lambda>r. minScore cfg \<le> score r)
           (applyDecay rt (filter (\<lambda>r. source r = ''sessions'') (results response)))"
  have "set (select_results rt cfg response)
          \<subseteq> set (Array_sort (\<lambda>a b. score b - score a) ?kept)"
    unfolding select_results_def Let_def by (rule slice0_set)
  also have "\<dots> = set ?kept"
    by (rule Array_sort_desc_set)
  finally show ?thesis
    by (auto simp: applyDecay_def)
qed

lemma select_results_sorted:
  "sorted_wrt (\<lambda>a b. score b \<le> score a) (select_results rt cfg response)"
  unfolding select_results_def Let_def by (intro slice0_sorted_wrt Array_sort_desc_sorted)

lemma select_results_length:
  "0 \<le> maxResults cfg \<Longrightarrow> of_nat (length (select_results rt cfg response)) \<le> maxResults cfg"
  unfolding select_results_def Let_def by (rule slice0_length)

lemma select_results_stable:
  "prefix (filter (\<lambda>r. score r = s) (select_results rt cfg response))
          (filter (\<lambda>r. score r = s)
             (applyDecay rt (filter (\<lambda>r. source r = ''sessions'') (results response))))"
proof -
  let ?decayed = "applyDecay rt (filter (\<lambda>r. source r = ''sessions'') (results response))"
  let ?kept = "filter (\<lambda>r. minScore cfg \<le> score r) ?decayed"
  let ?sorted = "Array_sort (\<lambda>a b. score b - score a) ?kept"
  have "prefix (select_results rt cfg response) ?sorted"
    unfolding select_results_def Let_def by (rule slice0_prefix)
  then have "prefix (filter (\<lambda>r. score r = s) (select_results rt cfg response))
                    (filter (\<lambda>r. score r = s) ?sorted)"
    by (rule filter_mono_prefix)
  moreover have "filter (\<lambda>r. score r = s) ?sorted = filter (\<lambda>r. score r = s) ?kept"
    by (rule Array_sort_desc_stable)
  moreover have "filter (\<lambda>r. score r = s) ?kept =
      (if minScore cfg \<le> s then filter (\<lambda>r. score r = s) ?decayed else [])"
    by (rule filter_eq_after_threshold)
  ultimately show ?thesis
    by (simp split: if_splits)
qed

section \<open>The search\<close>

lemma searchSessions_cases:
  "fst (searchSessions rt query cfg) = [] \<or>
   (\<exists>response. fst (searchSessions rt query cfg) = select_results rt cfg response)"
  by (auto simp: searchSessions_def searchSessions_try_def Let_def
           split: sum.splits option.splits)

lemma searchSessions_response:
  assumes "execSync rt (shell_command rt query cfg) = Inr output"
    and "match_json output = Some js"
    and "JSON_parse rt js = Some response"
  shows "fst (searchSessions rt query cfg) = select_results rt cfg response"
  using assms by (simp add: searchSessions_def searchSessions_try_def Let_def)

lemma searchSessions_runs:
  "snd (searchSessions rt query cfg) = [shell_command rt query cfg]"
  by (simp add: searchSessions_def Let_def)

lemma example_response:
  "execSync example_runtime (shell_command example_runtime q cfg) = Inr ''plugins loaded {hits} done''"
  "match_json ''plugins loaded {hits} done'' = Some ''{hits}''"
  "JSON_parse example_runtime ''{hits}'' = Some \<lparr>results = example_hits\<rparr>"
  by (simp_all add: example_runtime_def match_json_def)

lemma example_search:
  "map path (fst (searchSessions example_runtime ''deploy'' default_config))
     = [''sessions/c.jsonl'', ''sessions/a.jsonl'', ''sessions/b.jsonl'']"
  "map score (fst (searchSessions example_runtime ''deploy'' default_config))
     = [7 / 10, 6 / 10, 6 / 10]"
  "map source (fst (searchSessions example_runtime ''deploy'' default_config))
     = [''sessions'', ''sessions'', ''sessions'']"
  by code_simp+

text \<open>
  Claim C1. Whatever the backend returns, and for every configuration the schema accepts,
  \<^verbatim>\<open>searchSessions\<close> returns at most \<^verbatim>\<open>maxResults\<close> results, each with a decayed
  score (the raw score times the factor of its age) of at least \<^verbatim>\<open>minScore\<close>, in
  descending order of the decayed score.
\<close>

theorem searchSessions_bounded_filtered_sorted:
  assumes "sessionRecallConfigSchema cfg"
  shows "of_nat (length (fst (searchSessions rt query cfg))) \<le> maxResults cfg
       \<and> (\<forall>r \<in> set (fst (searchSessions rt query cfg)).
             minScore cfg \<le> score r \<and> score r = rawScore r * decayFactor r
             \<and> decayFactor r = getDecayFactor (ageInDays r))
       \<and> sorted_wrt (\<lambda>a b. score b \<le> score a) (fst (searchSessions rt query cfg))"
proof -
  have m: "0 \<le> maxResults cfg"
    using assms by (simp add: sessionRecallConfigSchema_def)
  consider (empty) "fst (searchSessions rt query cfg) = []"
    | (resp) response where "fst (searchSessions rt query cfg) = select_results rt cfg response"
    using searchSessions_cases by blast
  then show ?thesis
  proof cases
    case empty
    with m show ?thesis by simp
  next
    case resp
    have len: "of_nat (length (select_results rt cfg response)) \<le> maxResults cfg"
      using m by (rule select_results_length)
    have each: "\<forall>r \<in> set (select_results rt cfg response).
             minScore cfg \<le> score r \<and> score r = rawScore r * decayFactor r
             \<and> decayFactor r = getDecayFactor (ageInDays r)"
      using select_results_subset [of rt cfg response] decay_result_fields(4,5) by blast
    have ord: "sorted_wrt (\<lambda>a b. score b \<le> score a) (select_results rt cfg response)"
      by (rule select_results_sorted)
    show ?thesis
      unfolding resp using len each ord by blast
  qed
qed

theorem searchSessions_bounded_filtered_sorted_witness:
  "sessionRecallConfigSchema default_config
   \<and> of_nat (length (fst (searchSessions example_runtime ''deploy'' default_config)))
       \<le> maxResults default_config
   \<and> map score (fst (searchSessions example_runtime ''deploy'' default_config))
       = [7 / 10, 6 / 10, 6 / 10]
   \<and> map rawScore (applyDecay example_runtime example_hits)
       = [9 / 10, 95 / 100, 6 / 10, 6 / 10, 7 / 10]"
proof -
  have h: "sessionRecallConfigSchema default_config"
    by (simp add: sessionRecallConfigSchema_def default_config_def)
  have "map rawScore (applyDecay example_runtime example_hits)
       = [9 / 10, 95 / 100, 6 / 10, 6 / 10, 7 / 10]"
    by code_simp
  with h searchSessions_bounded_filtered_sorted [OF h, of example_runtime "''deploy''"]
  show ?thesis
    by (simp add: example_search(2))
qed

text \<open>
  Claim C7. Every result \<^verbatim>\<open>searchSessions\<close> returns carries the source tag
  \<^verbatim>\<open>"sessions"\<close>, whatever the score of the other hits.
\<close>

theorem searchSessions_only_sessions:
  "\<forall>r \<in> set (fst (searchSessions rt query cfg)). source r = ''sessions''"
proof -
  consider (empty) "fst (searchSessions rt query cfg) = []"
    | (resp) response where "fst (searchSessions rt query cfg) = select_results rt cfg response"
    using searchSessions_cases by blast
  then show ?thesis
  proof cases
    case empty
    then show ?thesis by simp
  next
    case resp
    have "\<forall>r \<in> set (select_results rt cfg response). source r = ''sessions''"
      using select_results_subset [of rt cfg response] decay_result_fields(1) by fastforce
    with resp show ?thesis by simp
  qed
qed

theorem searchSessions_only_sessions_witness:
  "map source (fst (searchSessions example_runtime ''deploy'' default_config))
     = [''sessions'', ''sessions'', ''sessions'']
   \<and> map source example_hits = [''sessions'', ''memory'', ''sessions'', ''sessions'', ''sessions'']
   \<and> list_all (\<lambda>r. source r = ''sessions'')
        (fst (searchSessions example_runtime ''deploy'' default_config))"
proof -
  have "list_all (\<lambda>r. source r = ''sessions'')
        (fst (searchSessions example_runtime ''deploy'' default_config))"
    using searchSessions_only_sessions [of example_runtime "''deploy''" default_config]
    by (simp add: list_all_iff)
  moreover have "map source example_hits
      = [''sessions'', ''memory'', ''sessions'', ''sessions'', ''sessions'']"
    by (simp add: example_hits_def)
  ultimately show ?thesis
    using example_search(3) by blast
qed

text \<open>
  Claim C10. The sort is stable: for every score \<open>s\<close>, the results returned with the
  decayed score \<open>s\<close> are, in the same order, the first of the session hits of the backend
  response with that decayed score. Results with equal scores thus keep the order of the
  response, and the output is a function of the response alone.
\<close>

theorem searchSessions_stable:
  assumes "execSync rt (shell_command rt query cfg) = Inr output"
    and "match_json output = Some js"
    and "JSON_parse rt js = Some response"
  shows "prefix (filter (\<lambda>r. score r = s) (fst (searchSessions rt query cfg)))
           (filter (\<lambda>r. score r = s)
             (applyDecay rt (filter (\<lambda>r. source r = ''sessions'') (results response))))"
  unfolding searchSessions_response [OF assms] by (rule select_results_stable)

theorem searchSessions_stable_witness:
  "map path (filter (\<lambda>r. score r = 6 / 10)
      (fst (searchSessions example_runtime ''deploy'' default_config)))
     = [''sessions/a.jsonl'', ''sessions/b.jsonl'']
   \<and> map path (filter (\<lambda>r. score r = 6 / 10)
      (applyDecay example_runtime (filter (\<lambda>r. source r = ''sessions'') example_hits)))
     = [''sessions/a.jsonl'', ''sessions/b.jsonl'']
   \<and> prefix (filter (\<lambda>r. score r = 6 / 10)
        (fst (searchSessions example_runtime ''deploy'' default_config)))
      (filter (\<lambda>r. score r = 6 / 10)
        (applyDecay example_runtime (filter (\<lambda>r. source r = ''sessions'') example_hits)))"
proof -
  have "prefix (filter (\<lambda>r. score r = 6 / 10)
        (fst (searchSessions example_runtime ''deploy'' default_config)))
      (filter (\<lambda>r. score r = 6 / 10)
        (applyDecay example_runtime (filter (\<lambda>r. source r = ''sessions'') example_hits)))"
    using searchSessions_stable
        [where rt = example_runtime and query = "''deploy''" and cfg = default_config
           and s = "6 / 10", OF example_response]
    by simp
  moreover have "map path (filter (\<lambda>r. score r = 6 / 10)
      (fst (searchSessions example_runtime ''deploy'' default_config)))
     = [''sessions/a.jsonl'', ''sessions/b.jsonl'']"
    by code_simp
  moreover have "map path (filter (\<lambda>r. score r = 6 / 10)
      (applyDecay example_runtime (filter (\<lambda>r. source r = ''sessions'') example_hits)))
     = [''sessions/a.jsonl'', ''sessions/b.jsonl'']"
    by code_simp
  ultimately show ?thesis by blast
qed


section \<open>Failures of the search\<close>

text \<open>
  Claim C4. When the external call fails (a timeout, a process error, too large an
  output), or its output holds no parseable JSON block, \<^verbatim>\<open>searchSessions\<close> returns
  the empty list: the exception, if any, ends in the \<^verbatim>\<open>catch\<close>. The handler then
  returns nothing, and the turn goes on without a context.
\<close>

theorem searchSessions_failure_empty:
  assumes "no_usable_response rt query cfg"
  shows "fst (searchSessions rt query cfg) = []
       \<and> fst (before_agent_start rt cfg \<lparr>prompt = Some query\<rparr>) = None"
proof -
  have empty: "fst (searchSessions rt query cfg) = []"
    using assms
    by (auto simp: no_usable_response_def searchSessions_def searchSessions_try_def Let_def
             split: sum.splits option.splits)
  then have "fst (before_agent_start rt cfg \<lparr>prompt = Some query\<rparr>) = None"
    by (cases "searchSessions rt query cfg") (simp add: before_agent_start_def Let_def)
  with empty show ?thesis by simp
qed

theorem searchSessions_failure_empty_witness:
  "no_usable_response timeout_runtime ''how did we deploy'' default_config
   \<and> searchSessions_try timeout_runtime
        (shell_command timeout_runtime ''how did we deploy'' default_config) default_config
       = Inl (ExecError Timeout)
   \<and> fst (searchSessions timeout_runtime ''how did we deploy'' default_config) = []
   \<and> fst (before_agent_start timeout_runtime default_config
        \<lparr>prompt = Some ''how did we deploy''\<rparr>) = None"
proof -
  have h: "no_usable_response timeout_runtime ''how did we deploy'' default_config"
    by (simp add: no_usable_response_def timeout_runtime_def)
  have "searchSessions_try timeout_runtime
        (shell_command timeout_runtime ''how did we deploy'' default_config) default_config
       = Inl (ExecError Timeout)"
    by (simp add: searchSessions_try_def timeout_runtime_def)
  with h searchSessions_failure_empty [OF h] show ?thesis
    by simp
qed

lemma example_failures:
  "searchSessions_try silent_runtime (shell_command silent_runtime q default_config)
     default_config = Inr []"
  "searchSessions_try garbled_runtime (shell_command garbled_runtime q default_config)
     default_config = Inl SyntaxError"
  "fst (searchSessions silent_runtime q default_config) = []"
  "fst (searchSessions garbled_runtime q default_config) = []"
  by (simp_all add: searchSessions_def searchSessions_try_def silent_runtime_def
        garbled_runtime_def example_runtime_def match_json_def)

section \<open>The command\<close>

lemma shell_command_text:
  "shell_command rt query cfg =
     ''openclaw memory search '' @ [quote] @ escapeQuery query @ [quote]
     @ '' --agent '' @ agentId cfg
     @ '' --max-results '' @ String_number rt (3 * maxResults cfg)
     @ '' --min-score '' @ String_number rt (minScore cfg / 2)
     @ '' --json 2>/dev/null''"
  by (simp add: shell_command_def cmd_parts_def mult.commute)

text \<open>
  Claim C8. \<^verbatim>\<open>searchSessions\<close> runs one command; it asks for \<open>3 * maxResults\<close>
  results and a minimum score of \<open>minScore / 2\<close>, and but for the quoted query the
  command is the same for every query.
\<close>

theorem searchSessions_command:
  "snd (searchSessions rt query cfg) = [shell_command rt query cfg]
   \<and> shell_command rt query cfg =
       ''openclaw memory search '' @ [quote] @ escapeQuery query @ [quote]
       @ '' --agent '' @ agentId cfg
       @ '' --max-results '' @ String_number rt (3 * maxResults cfg)
       @ '' --min-score '' @ String_number rt (minScore cfg / 2)
       @ '' --json 2>/dev/null''
   \<and> drop 4 (cmd_parts rt query cfg) = drop 4 (cmd_parts rt query' cfg)
   \<and> cmd_parts rt query cfg ! 7 = String_number rt (3 * maxResults cfg)
   \<and> cmd_parts rt query cfg ! 9 = String_number rt (minScore cfg / 2)"
proof -
  have "drop 4 (cmd_parts rt query cfg) = drop 4 (cmd_parts rt query' cfg)"
    by (simp add: cmd_parts_def)
  moreover have "cmd_parts rt query cfg ! 7 = String_number rt (3 * maxResults cfg)"
    by (simp add: cmd_parts_def mult.commute)
  moreover have "cmd_parts rt query cfg ! 9 = String_number rt (minScore cfg / 2)"
    by (simp add: cmd_parts_def)
  ultimately show ?thesis
    using searchSessions_runs [of rt query cfg] shell_command_text [of rt query cfg]
    by blast
qed

lemma example_command:
  "snd (searchSessions example_runtime ''deploy'' default_config) =
     [''openclaw memory search '' @ [quote] @ ''deploy'' @ [quote]
      @ '' --agent main --max-results 15 --min-score 0.25 --json 2>/dev/null'']"
  by code_simp


section \<open>The gate\<close>

lemma before_agent_start_skip:
  "gate_skips cfg ev \<Longrightarrow> before_agent_start rt cfg ev = (None, [])"
  by (auto simp: gate_skips_def before_agent_start_def Let_def split: option.splits)

lemma before_agent_start_search:
  assumes "\<not> gate_skips cfg ev"
  shows "\<exists>p. prompt ev = Some p \<and> snd (before_agent_start rt cfg ev) = [shell_command rt p cfg]"
proof -
  from assms obtain p where p: "prompt ev = Some p"
    by (cases "prompt ev") (auto simp: gate_skips_def)
  have "snd (before_agent_start rt cfg ev) = snd (searchSessions rt p cfg)"
    using assms p
    by (cases "searchSessions rt p cfg")
       (auto simp: gate_skips_def before_agent_start_def Let_def)
  with p show ?thesis
    by (simp add: searchSessions_runs)
qed

text \<open>
  Claim C3, as the specification states it, is false for the empty prompt: with
  \<^verbatim>\<open>minPromptLength\<close> set to 0 the prompt \<^verbatim>\<open>""\<close> is present, its length is not
  below the minimum and it names neither "heartbeat" nor "[system", and the handler still
  returns nothing without a search, since \<^verbatim>\<open>!event.prompt\<close> holds of the empty string.
\<close>

theorem gate_empty_prompt_counterexample:
  "before_agent_start example_runtime zero_config \<lparr>prompt = Some ''''\<rparr> = (None, [])
   \<and> \<not> spec_gate_skips zero_config \<lparr>prompt = Some ''''\<rparr>"
  by (simp add: before_agent_start_def spec_gate_skips_def zero_config_def default_config_def
        toLowerCase_def startsWith_def)

text \<open>
  Claim C3, amended. The handler returns nothing and runs no search exactly when the
  prompt is absent or empty, or its length is below \<^verbatim>\<open>minPromptLength\<close>, or its
  lower-cased text contains "heartbeat" or starts with "[system"; otherwise it runs the
  search. A prompt of length 3 is skipped when \<^verbatim>\<open>minPromptLength\<close> is 10.
\<close>

theorem gate_skips_iff:
  "(before_agent_start rt cfg ev = (None, []) \<longleftrightarrow>
      (prompt ev = None \<or> prompt ev = Some []
       \<or> (\<exists>p. prompt ev = Some p
              \<and> (of_nat (length p) < minPromptLength cfg
                  \<or> includes_str (toLowerCase p) ''heartbeat''
                  \<or> startsWith (toLowerCase p) ''[system''))))
   \<and> (length p3 = 3 \<and> minPromptLength cfg = 10
        \<longrightarrow> before_agent_start rt cfg \<lparr>prompt = Some p3\<rparr> = (None, []))"
proof -
  have cond: "gate_skips cfg ev \<longleftrightarrow>
      (prompt ev = None \<or> prompt ev = Some []
       \<or> (\<exists>p. prompt ev = Some p
              \<and> (of_nat (length p) < minPromptLength cfg
                  \<or> includes_str (toLowerCase p) ''heartbeat''
                  \<or> startsWith (toLowerCase p) ''[system'')))"
    by (cases "prompt ev") (auto simp: gate_skips_def)
  have "before_agent_start rt cfg ev = (None, []) \<longleftrightarrow> gate_skips cfg ev"
  proof
    assume r: "before_agent_start rt cfg ev = (None, [])"
    show "gate_skips cfg ev"
    proof (rule ccontr)
      assume "\<not> gate_skips cfg ev"
      then have "snd (before_agent_start rt cfg ev) \<noteq> []"
        using before_agent_start_search [of cfg ev rt] by auto
      with r show False by simp
    qed
  next
    assume "gate_skips cfg ev"
    then show "before_agent_start rt cfg ev = (None, [])"
      by (rule before_agent_start_skip)
  qed
  moreover have "length p3 = 3 \<and> minPromptLength cfg = 10
        \<longrightarrow> before_agent_start rt cfg \<lparr>prompt = Some p3\<rparr> = (None, [])"
    by (auto intro!: before_agent_start_skip simp: gate_skips_def)
  ultimately show ?thesis
    using cond by blast
qed

theorem gate_skips_iff_witness:
  "length ''hey'' = 3 \<and> minPromptLength default_config = 10
   \<and> before_agent_start example_runtime default_config \<lparr>prompt = Some ''hey''\<rparr> = (None, [])
   \<and> before_agent_start example_runtime default_config
        \<lparr>prompt = Some ''HEARTBEAT check, please''\<rparr> = (None, [])
   \<and> before_agent_start example_runtime default_config
        \<lparr>prompt = Some ''[System] wake up now''\<rparr> = (None, [])
   \<and> snd (before_agent_start example_runtime default_config
        \<lparr>prompt = Some ''how did we deploy''\<rparr>)
       = [shell_command example_runtime ''how did we deploy'' default_config]"
proof -
  have h: "length ''hey'' = 3 \<and> minPromptLength default_config = 10"
    by (simp add: default_config_def)
  then have "before_agent_start example_runtime default_config \<lparr>prompt = Some ''hey''\<rparr>
      = (None, [])"
    using gate_skips_iff [of example_runtime default_config "\<lparr>prompt = Some ''hey''\<rparr>" "''hey''"]
    by blast
  moreover have "before_agent_start example_runtime default_config
        \<lparr>prompt = Some ''HEARTBEAT check, please''\<rparr> = (None, [])"
    by code_simp
  moreover have "before_agent_start example_runtime default_config
        \<lparr>prompt = Some ''[System] wake up now''\<rparr> = (None, [])"
    by code_simp
  moreover have "snd (before_agent_start example_runtime default_config
        \<lparr>prompt = Some ''how did we deploy''\<rparr>)
       = [shell_command example_runtime ''how did we deploy'' default_config]"
    by code_simp
  ultimately show ?thesis
    using h by blast
qed


section \<open>Formatting: the snippet\<close>

lemma strip_end: "rev (dropWhile P (rev xs)) @ rev (takeWhile P (rev xs)) = xs"
proof -
  have "rev (takeWhile P (rev xs) @ dropWhile P (rev xs)) = xs"
    by (simp only: takeWhile_dropWhile_id rev_rev_ident)
  then show ?thesis
    by (simp only: rev_append)
qed

lemma trim_decompose:
  "\<exists>l t. raw = l @ trim raw @ t \<and> list_all isWhiteSpace l \<and> list_all isWhiteSpace t"
proof -
  let ?l = "takeWhile isWhiteSpace raw"
  let ?m = "dropWhile isWhiteSpace raw"
  let ?t = "rev (takeWhile isWhiteSpace (rev ?m))"
  have m: "?m = trim raw @ ?t"
    unfolding trim_def by (rule strip_end [symmetric])
  have "raw = ?l @ ?m"
    by simp
  with m have "raw = ?l @ trim raw @ ?t"
    by simp
  moreover have "list_all isWhiteSpace ?l"
    by (auto simp: list_all_iff dest: set_takeWhileD)
  moreover have "list_all isWhiteSpace ?t"
    by (auto simp: list_all_iff dest: set_takeWhileD)
  ultimately show ?thesis
    by blast
qed

lemma trim_last: "trim raw \<noteq> [] \<Longrightarrow> \<not> isWhiteSpace (last (trim raw))"
  by (simp add: trim_def last_rev hd_dropWhile)

lemma trim_hd:
  assumes "trim raw \<noteq> []"
  shows "\<not> isWhiteSpace (hd (trim raw))"
proof -
  let ?m = "dropWhile isWhiteSpace raw"
  have m: "?m = trim raw @ rev (takeWhile isWhiteSpace (rev ?m))"
    unfolding trim_def by (rule strip_end [symmetric])
  with assms have "hd ?m = hd (trim raw)"
    by (metis hd_append2)
  moreover have "?m \<noteq> []"
    using assms m by (metis append_is_Nil_conv)
  ultimately show ?thesis
    using hd_dropWhile [of isWhiteSpace raw] by metis
qed

lemma trim_id:
  assumes "s \<noteq> []" and "\<not> isWhiteSpace (hd s)" and "\<not> isWhiteSpace (last s)"
  shows "trim s = s"
proof -
  have "dropWhile isWhiteSpace s = s"
    using assms(1,2) by (cases s) simp_all
  moreover have "dropWhile isWhiteSpace (rev s) = rev s"
    using assms(1,3) by (cases "rev s") (simp_all add: last_rev [symmetric] hd_rev)
  ultimately show ?thesis
    by (simp add: trim_def)
qed

lemma clean_snippet_cases:
  "clean_snippet raw =
     (if 500 < length (trim raw) then take 500 (trim raw) @ ''...'' else trim raw)"
  by (simp add: clean_snippet_def Let_def)

text \<open>
  Claim C5. The snippet is trimmed first: what is cut off at either end is white space,
  and what is left neither starts nor ends with white space. A trimmed snippet of more
  than 500 characters is cut to its first 500 characters followed by the three dots; any
  other is left as trimmed. So a snippet of (trimmed) length 600 becomes 500 characters
  and the marker, and one of length 500 is unchanged. The result is what the formatter
  prints after the header line of the item.
\<close>

theorem clean_snippet_truncates:
  "clean_snippet raw =
     (if 500 < length (trim raw) then take 500 (trim raw) @ ''...'' else trim raw)
   \<and> (\<exists>l t. raw = l @ trim raw @ t \<and> list_all isWhiteSpace l \<and> list_all isWhiteSpace t)
   \<and> (trim raw \<noteq> [] \<longrightarrow> \<not> isWhiteSpace (hd (trim raw)) \<and> \<not> isWhiteSpace (last (trim raw)))
   \<and> (length (trim raw) = 600 \<longrightarrow>
        length (clean_snippet raw) = 503
        \<and> take 500 (clean_snippet raw) = take 500 (trim raw)
        \<and> drop 500 (clean_snippet raw) = ''...'')
   \<and> (length (trim raw) = 500 \<longrightarrow> clean_snippet raw = trim raw)
   \<and> (\<exists>header. format_result i r = header @ [newline] @ clean_snippet (snippet r))"
proof -
  have "length (trim raw) = 600 \<longrightarrow>
        length (clean_snippet raw) = 503
        \<and> take 500 (clean_snippet raw) = take 500 (trim raw)
        \<and> drop 500 (clean_snippet raw) = ''...''"
    by (simp add: clean_snippet_cases)
  moreover have "length (trim raw) = 500 \<longrightarrow> clean_snippet raw = trim raw"
    by (simp add: clean_snippet_cases)
  moreover have "\<exists>header. format_result i r = header @ [newline] @ clean_snippet (snippet r)"
    unfolding format_result_def Let_def append_assoc [symmetric] by (rule exI) (rule refl)
  ultimately show ?thesis
    using clean_snippet_cases [of raw] trim_decompose [of raw] trim_hd [of raw] trim_last [of raw]
    by blast
qed

lemma trim_replicate_a: "trim (replicate (Suc n) (CHR ''a'')) = replicate (Suc n) (CHR ''a'')"
  by (rule trim_id) (simp_all add: isWhiteSpace_def del: replicate_Suc)

theorem clean_snippet_truncates_witness:
  "length (trim (replicate 600 (CHR ''a''))) = 600
   \<and> clean_snippet (replicate 600 (CHR ''a'')) = replicate 500 (CHR ''a'') @ ''...''
   \<and> length (trim (replicate 500 (CHR ''a''))) = 500
   \<and> clean_snippet (replicate 500 (CHR ''a'')) = replicate 500 (CHR ''a'')
   \<and> clean_snippet ('' '' @ replicate 500 (CHR ''a'') @ [newline]) = replicate 500 (CHR ''a'')"
proof -
  have t6: "trim (replicate 600 (CHR ''a'')) = replicate 600 (CHR ''a'')"
    using trim_replicate_a [of 599] by simp
  have t5: "trim (replicate 500 (CHR ''a'')) = replicate 500 (CHR ''a'')"
    using trim_replicate_a [of 499] by simp
  have h6: "length (trim (replicate 600 (CHR ''a''))) = 600"
    by (simp add: t6)
  have h5: "length (trim (replicate 500 (CHR ''a''))) = 500"
    by (simp add: t5)
  have c6: "clean_snippet (replicate 600 (CHR ''a'')) = take 500 (trim (replicate 600 (CHR ''a''))) @ ''...''"
    using clean_snippet_truncates [of "replicate 600 (CHR ''a'')"] h6 by simp
  have c5: "clean_snippet (replicate 500 (CHR ''a'')) = trim (replicate 500 (CHR ''a''))"
    using clean_snippet_truncates [of "replicate 500 (CHR ''a'')"] h5 by blast
  have pad: "clean_snippet ('' '' @ replicate 500 (CHR ''a'') @ [newline]) = replicate 500 (CHR ''a'')"
    by code_simp
  show ?thesis
    using h6 h5 c6 c5 pad by (simp add: t6 t5)
qed

section \<open>Formatting: the age label\<close>

lemma Math_round_nearest:
  "x - 1 / 2 < of_int (Math_round x) \<and> of_int (Math_round x) \<le> x + 1 / 2"
  unfolding Math_round_def by linarith

text \<open>
  Claim C6. \<^verbatim>\<open>formatAge\<close> returns the label of the first bound the age is below:
  "today" below 1, "yesterday" below 2, then the rounded number of days below 7, of weeks
  (days / 7) below 30, of months (days / 30) below 365, and of years (days / 365) from
  there on; the rounding is to the nearest integer. So 0.5 gives "today", 1.5 "yesterday",
  6.9 "7d ago" and 400 "1y ago".
\<close>

theorem formatAge_labels:
  "(d < 1 \<longrightarrow> formatAge d = ''today'')
   \<and> (1 \<le> d \<and> d < 2 \<longrightarrow> formatAge d = ''yesterday'')
   \<and> (2 \<le> d \<and> d < 7 \<longrightarrow> formatAge d = String_int (Math_round d) @ ''d ago'')
   \<and> (7 \<le> d \<and> d < 30 \<longrightarrow> formatAge d = String_int (Math_round (d / 7)) @ ''w ago'')
   \<and> (30 \<le> d \<and> d < 365 \<longrightarrow> formatAge d = String_int (Math_round (d / 30)) @ ''mo ago'')
   \<and> (365 \<le> d \<longrightarrow> formatAge d = String_int (Math_round (d / 365)) @ ''y ago'')
   \<and> x - 1 / 2 < of_int (Math_round x) \<and> of_int (Math_round x) \<le> x + 1 / 2
   \<and> formatAge (5 / 10) = ''today''
   \<and> formatAge (15 / 10) = ''yesterday''
   \<and> formatAge (69 / 10) = ''7d ago''
   \<and> formatAge 400 = ''1y ago''"
proof -
  have general:
    "(d < 1 \<longrightarrow> formatAge d = ''today'')
     \<and> (1 \<le> d \<and> d < 2 \<longrightarrow> formatAge d = ''yesterday'')
     \<and> (2 \<le> d \<and> d < 7 \<longrightarrow> formatAge d = String_int (Math_round d) @ ''d ago'')
     \<and> (7 \<le> d \<and> d < 30 \<longrightarrow> formatAge d = String_int (Math_round (d / 7)) @ ''w ago'')
     \<and> (30 \<le> d \<and> d < 365 \<longrightarrow> formatAge d = String_int (Math_round (d / 30)) @ ''mo ago'')
     \<and> (365 \<le> d \<longrightarrow> formatAge d = String_int (Math_round (d / 365)) @ ''y ago'')"
    by (simp add: formatAge_def)
  have e1: "formatAge (5 / 10) = ''today''"
    by code_simp
  have e2: "formatAge (15 / 10) = ''yesterday''"
    by code_simp
  have e3: "formatAge (69 / 10) = ''7d ago''"
    by code_simp
  have e4: "formatAge 400 = ''1y ago''"
    by code_simp
  show ?thesis
    using general Math_round_nearest [of x] e1 e2 e3 e4 by blast
qed

theorem formatAge_labels_witness:
  "(2::number) \<le> 69 / 10 \<and> (69 / 10 :: number) < 7
   \<and> Math_round (69 / 10) = 7
   \<and> formatAge (69 / 10) = String_int 7 @ ''d ago''
   \<and> String_int 7 @ ''d ago'' = ''7d ago''"
proof -
  have h: "(2::number) \<le> 69 / 10 \<and> (69 / 10 :: number) < 7"
    by simp
  then have "formatAge (69 / 10) = String_int (Math_round (69 / 10)) @ ''d ago''"
    using formatAge_labels [of "69 / 10" 0] by blast
  moreover have r: "Math_round (69 / 10) = 7"
    by code_simp
  moreover have "String_int 7 @ ''d ago'' = ''7d ago''"
    by code_simp
  ultimately show ?thesis
    using h by simp
qed

lemma formatAge_boundaries:
  "map formatAge [1, 2, 7, 29, 30, 364, 365]
     = [''yesterday'', ''2d ago'', ''1w ago'', ''4w ago'', ''1mo ago'', ''12mo ago'', ''1y ago'']"
  by code_simp

end
